theory Spec2Isabelle
  imports Main
begin

section \<open>JavaScript values\<close>

text \<open>
  A JavaScript \<^verbatim>\<open>number\<close> as far as this program computes with it: an integer or
  \<^verbatim>\<open>NaN\<close>. The client only ever produces numbers by \<^verbatim>\<open>Number(...)\<close> of a string of at
  most one character, and the comparisons \<^verbatim>\<open>>=\<close> and \<^verbatim>\<open><=\<close> are false on \<^verbatim>\<open>NaN\<close>.
\<close>

datatype jsnumber = Num int | NaN

fun js_ge :: "jsnumber \<Rightarrow> jsnumber \<Rightarrow> bool" where
  "js_ge (Num a) (Num b) = (a \<ge> b)"
| "js_ge _ _ = False"

fun js_le :: "jsnumber \<Rightarrow> jsnumber \<Rightarrow> bool" where
  "js_le (Num a) (Num b) = (a \<le> b)"
| "js_le _ _ = False"

fun js_minus :: "jsnumber \<Rightarrow> jsnumber \<Rightarrow> jsnumber" where
  "js_minus (Num a) (Num b) = Num (a - b)"
| "js_minus _ _ = NaN"

text \<open>
  \<^verbatim>\<open>xs[i]\<close> on an array: \<^verbatim>\<open>undefined\<close> (here \<open>None\<close>) when the index is out of range.
\<close>

definition js_index :: "'a list \<Rightarrow> nat \<Rightarrow> 'a option" where
  "js_index xs i = (if i < length xs then Some (xs ! i) else None)"

text \<open>\<^verbatim>\<open>s.slice(-1)\<close>: the last character of a string, or the empty string.\<close>

definition slice_last :: "string \<Rightarrow> string" where
  "slice_last s = (if s = [] then [] else [last s])"

text \<open>\<^verbatim>\<open>xs.join(sep)\<close> on an array of strings.\<close>

fun join :: "string list \<Rightarrow> string \<Rightarrow> string" where
  "join [] sep = []"
| "join [x] sep = x"
| "join (x # y # ys) sep = x @ sep @ join (y # ys) sep"

text \<open>
  \<^verbatim>\<open>Number(s)\<close> on a string: surrounding white space is dropped, the empty string is
  \<open>0\<close>, a string of decimal digits is its value, anything else is \<^verbatim>\<open>NaN\<close>. A character
  is one code unit below 256. Literals with a sign, a fraction, an exponent, a radix prefix
  or \<^verbatim>\<open>Infinity\<close> are outside this fragment; the program applies \<^verbatim>\<open>Number\<close> to the
  empty string and to one-character strings only, on which the definition is exact.
\<close>

definition StrWhiteSpaceChar :: "char \<Rightarrow> bool" where
  "StrWhiteSpaceChar c \<longleftrightarrow>
     c \<in> set [CHR 0x09, CHR 0x0A, CHR 0x0B, CHR 0x0C, CHR 0x0D, CHR 0x20, CHR 0xA0]"

definition DecimalDigit :: "char \<Rightarrow> bool" where
  "DecimalDigit c \<longleftrightarrow> c \<in> set ''0123456789''"

definition digit_value :: "char \<Rightarrow> int" where
  "digit_value c = int (of_char c) - 48"

fun digits_value :: "int \<Rightarrow> string \<Rightarrow> int" where
  "digits_value acc [] = acc"
| "digits_value acc (c # cs) = digits_value (10 * acc + digit_value c) cs"

definition trim :: "string \<Rightarrow> string" where
  "trim s = rev (dropWhile StrWhiteSpaceChar (rev (dropWhile StrWhiteSpaceChar s)))"

definition Number_js :: "string \<Rightarrow> jsnumber" where
  "Number_js s =
     (let t = trim s in
      if t = [] then Num 0
      else if list_all DecimalDigit t then Num (digits_value 0 t)
      else NaN)"

section \<open>Client: the Nim move input (hook useNimGamePage)\<close>

text \<open>
  The hook's state \<^verbatim>\<open>move\<close> has type \<^verbatim>\<open>number | string\<close> and starts as the empty string.
\<close>

datatype move_state = MoveStr string | MoveNum jsnumber

definition initialMove :: move_state where
  "initialMove = MoveStr []"

text \<open>
  \<^verbatim>\<open>handleInputChange\<close>: \<open>val\<close> is \<^verbatim>\<open>e.target.value\<close>, \<open>mv\<close> the state before the event;
  the result is the state after it (\<^verbatim>\<open>setMove\<close> is called only inside the \<^verbatim>\<open>if\<close>).
\<close>

definition handleInputChange :: "string \<Rightarrow> move_state \<Rightarrow> move_state" where
  "handleInputChange val mv =
     (let numValue = Number_js (slice_last val) in
      if val = [] \<or> (js_ge numValue (Num 1) \<and> js_le numValue (Num 3))
      then MoveNum (if val = [] then Num 1 else numValue)
      else mv)"

section \<open>Client: game types and the move submission\<close>

text \<open>
  The types module of the client is not part of the sources at hand; the records below
  have the fields the components read and write. \<open>moveGameID\<close> is the field
  \<^verbatim>\<open>gameID\<close> of a game move, \<open>payloadGameID\<close> and \<open>payloadMove\<close> are the fields
  \<^verbatim>\<open>gameID\<close> and \<^verbatim>\<open>move\<close> of the object given to \<^verbatim>\<open>socket.emit\<close>, and \<open>user_id\<close> is
  \<^verbatim>\<open>_id\<close>.
\<close>

record User =
  user_id :: string
  username :: string

datatype GameStatus = WAITING | IN_PROGRESS | OVER

record NimMove =
  numObjects :: jsnumber

record GameMove =
  playerID :: string
  moveGameID :: string
  move :: NimMove

record GameState =
  status :: GameStatus
  player1 :: "string option"
  player2 :: "string option"
  moves :: "GameMove list"
  remainingObjects :: jsnumber
  winners :: "string list option"

record GameInstance =
  gameID :: string
  gameType :: string
  players :: "string list"
  state :: GameState

record MakeMovePayload =
  payloadGameID :: string
  payloadMove :: GameMove

text \<open>\<^verbatim>\<open>Number(move)\<close> on the hook's state.\<close>

fun Number_move :: "move_state \<Rightarrow> jsnumber" where
  "Number_move (MoveStr s) = Number_js s"
| "Number_move (MoveNum n) = n"

text \<open>
  \<^verbatim>\<open>handleMakeMove\<close>: the event name and the payload given to \<^verbatim>\<open>socket.emit\<close>.
\<close>

definition handleMakeMove :: "User \<Rightarrow> GameInstance \<Rightarrow> move_state \<Rightarrow> string \<times> MakeMovePayload" where
  "handleMakeMove user game mv =
     (let nimMove = \<lparr>playerID = username user, moveGameID = gameID game,
                      move = \<lparr>numObjects = Number_move mv\<rparr>\<rparr>
      in (''makeMove'', \<lparr>payloadGameID = gameID game, payloadMove = nimMove\<rparr>))"

text \<open>The move state after a sequence of input change events, oldest first.\<close>

definition moveAfter :: "string list \<Rightarrow> move_state" where
  "moveAfter vals = foldl (\<lambda>mv val. handleInputChange val mv) initialMove vals"

section \<open>Client: the Nim game page (component NimGamePage)\<close>

text \<open>\<^verbatim>\<open>a || b\<close> for an optional string \<open>a\<close>: \<open>b\<close> when \<open>a\<close> is undefined or empty.\<close>

definition js_or :: "string option \<Rightarrow> string \<Rightarrow> string" where
  "js_or a b = (case a of None \<Rightarrow> b | Some s \<Rightarrow> if s = [] then b else s)"

text \<open>
  What the component renders from its props and the hook's state: the two player lines,
  the current player, the pile, the winner line when the game is over, and the move form
  (input value, whether the submit button is disabled) when the game is in progress.
\<close>

record MoveForm =
  inputValue :: move_state
  submitDisabled :: bool

record NimGameView =
  player1Shown :: string
  player2Shown :: string
  currentPlayerToMove :: "string option"
  remainingObjectsShown :: jsnumber
  winnerShown :: "string option"
  moveForm :: "MoveForm option"

definition NimGamePage :: "User \<Rightarrow> move_state \<Rightarrow> GameInstance \<Rightarrow> NimGameView" where
  "NimGamePage user mv game =
     \<lparr>player1Shown = js_or (player1 (state game)) ''Waiting...'',
      player2Shown = js_or (player2 (state game)) ''Waiting...'',
      currentPlayerToMove = js_index (players game) (length (moves (state game)) mod 2),
      remainingObjectsShown = remainingObjects (state game),
      winnerShown =
        (if status (state game) = OVER
         then Some (js_or (map_option (\<lambda>ws. join ws '', '') (winners (state game))) ''No winner'')
         else None),
      moveForm =
        (if status (state game) = IN_PROGRESS
         then Some \<lparr>inputValue = mv,
                    submitDisabled =
                      (js_index (players game) (length (moves (state game)) mod 2)
                         \<noteq> Some (username user))\<rparr>
         else None)\<rparr>"

section \<open>Client: game updates and errors (hook useGamePage)\<close>

text \<open>
  \<open>errorState\<close> is the hook's state \<^verbatim>\<open>error\<close>, \<open>updatedGameState\<close> the field
  \<^verbatim>\<open>gameState\<close> of an update payload.
\<close>

record GameErrorPayload =
  player :: string
  error :: string

record GameUpdatePayload =
  updatedGameState :: GameInstance

record GamePageState =
  gameState :: "GameInstance option"
  joinedGameID :: "string option"
  errorState :: "string option"

definition handleGameUpdate :: "GameUpdatePayload \<Rightarrow> GamePageState \<Rightarrow> GamePageState" where
  "handleGameUpdate updatedState st =
     st\<lparr>gameState := Some (updatedGameState updatedState), errorState := None\<rparr>"

definition handleGameError :: "User \<Rightarrow> GameErrorPayload \<Rightarrow> GamePageState \<Rightarrow> GamePageState" where
  "handleGameError user gameError st =
     (if player gameError = username user
      then st\<lparr>errorState := Some (error gameError)\<rparr>
      else st)"

section \<open>Server: the move protocol\<close>

text \<open>
  The game service of the server is not part of the sources at hand. The game is the
  object of the update broadcast, the move the object of the move submission: the
  identifier is \<open>gameID\<close>, the participants are \<open>players\<close>, the mover is \<open>playerID\<close>
  and the count is \<open>numObjects\<close>.
\<close>

text \<open>
  Modelled from the spec: the verdict of the validator, \<^verbatim>\<open>Ok | Rejected(reason)\<close>.
\<close>

datatype validation = Ok | Rejected string

text \<open>
  Modelled from the spec: the Move Validator \<^verbatim>\<open>validate(game, move)\<close>, absent from the
  sources. Four checks in order, the first failing one gives the reason: the status is
  IN_PROGRESS; the mover is \<^verbatim>\<open>participants[moves.length % 2]\<close>; the count is an integer in
  [1,3]; the count is at most \<^verbatim>\<open>remainingObjects\<close>.
\<close>

definition validate :: "GameInstance \<Rightarrow> GameMove \<Rightarrow> validation" where
  "validate game mv =
     (if status (state game) \<noteq> IN_PROGRESS then Rejected ''game not active''
      else if js_index (players game) (length (moves (state game)) mod 2) \<noteq> Some (playerID mv)
        then Rejected ''not your turn''
      else if \<not> (js_ge (numObjects (move mv)) (Num 1) \<and> js_le (numObjects (move mv)) (Num 3))
        then Rejected ''invalid move count''
      else if \<not> js_le (numObjects (move mv)) (remainingObjects (state game))
        then Rejected ''insufficient objects''
      else Ok)"

text \<open>
  Modelled from the spec: the Turn Resolver \<^verbatim>\<open>resolve(game, move)\<close>, absent from the
  sources. It appends the move, takes the count off \<^verbatim>\<open>remainingObjects\<close>, and when
  nothing remains sets the status to OVER and the winners to the mover alone.
\<close>

definition resolve :: "GameInstance \<Rightarrow> GameMove \<Rightarrow> GameInstance" where
  "resolve game mv =
     (let remaining = js_minus (remainingObjects (state game)) (numObjects (move mv));
          st = (state game)\<lparr>moves := moves (state game) @ [mv], remainingObjects := remaining\<rparr>
      in if remaining = Num 0
         then game\<lparr>state := st\<lparr>status := OVER, winners := Some [playerID mv]\<rparr>\<rparr>
         else game\<lparr>state := st\<rparr>)"

text \<open>
  Modelled from the spec: the Game State Store, absent from the sources: the games by
  identifier, and whether the store can be written.
\<close>

record GameStore =
  games :: "string \<rightharpoonup> GameInstance"
  available :: bool

text \<open>
  Modelled from the spec: \<^verbatim>\<open>get(gameID) -> Game | NotFound\<close>, with \<open>None\<close> for NotFound.
\<close>

definition get :: "GameStore \<Rightarrow> string \<Rightarrow> GameInstance option" where
  "get store gid = games store gid"

text \<open>
  Modelled from the spec: \<^verbatim>\<open>put(game) -> Ok | Error\<close>, a single-document replace that
  fails as a whole (\<open>None\<close>) when the store is unavailable.
\<close>

definition put :: "GameStore \<Rightarrow> string \<Rightarrow> GameInstance \<Rightarrow> GameStore option" where
  "put store gid game =
     (if available store then Some (store\<lparr>games := (games store)(gid \<mapsto> game)\<rparr>) else None)"

text \<open>
  Modelled from the spec: how a submission ends (committed, or one of the errors of the
  taxonomy: validation, not found, persistence), and the events of the Broadcast Channel,
  each with its topic: an error for one participant, an update for a game.
\<close>

datatype outcome = Committed | RejectedMove string | NotFoundError | PersistenceError

datatype event = ErrorEvent string GameErrorPayload | UpdateEvent string GameInstance

text \<open>
  Modelled from the spec: the Game Session Controller \<^verbatim>\<open>submitMove(gameID, move)\<close>,
  absent from the sources: load, validate, on rejection publish an error to the mover
  only, on acceptance resolve, persist and publish the new game to the game's topic. The
  result is the store afterwards, the outcome and the published events (topic, payload).
\<close>

definition submitMove :: "GameStore \<Rightarrow> string \<Rightarrow> GameMove \<Rightarrow> GameStore \<times> outcome \<times> event list" where
  "submitMove store gid mv =
     (case get store gid of
        None \<Rightarrow> (store, NotFoundError, [])
      | Some game \<Rightarrow>
          (case validate game mv of
             Rejected reason \<Rightarrow>
               (store, RejectedMove reason,
                [ErrorEvent (playerID mv) \<lparr>player = playerID mv, error = reason\<rparr>])
           | Ok \<Rightarrow>
               (let game' = resolve game mv in
                case put store gid game' of
                  None \<Rightarrow> (store, PersistenceError, [])
                | Some store' \<Rightarrow> (store', Committed, [UpdateEvent gid game']))))"

section \<open>Server: the chat service\<close>

text \<open>
  The Mongoose models and the message and user types are not part of the sources at hand.
  A collection is the list of its documents in natural order. \<open>message_id\<close> and
  \<open>chat_id\<close> are \<^verbatim>\<open>_id\<close>, \<open>msgType\<close> is the field \<^verbatim>\<open>type\<close>, a date is its time value,
  and a stored chat holds the identifiers of its messages. The optional dates
  \<^verbatim>\<open>createdAt\<close> and \<^verbatim>\<open>updatedAt\<close> of a chat, which the schema may maintain, are left out.
\<close>

record Message =
  message_id :: "string option"
  msg :: string
  msgFrom :: string
  msgDateTime :: int
  msgType :: string

record Chat =
  chat_id :: "string option"
  participants :: "string list"
  messages :: "string list"

record Database =
  users :: "User list"
  chats :: "Chat list"
  storedMessages :: "Message list"

text \<open>
  A database call can reject (connection lost, cast or validation error); the service
  functions catch that. \<open>fault op = Some m\<close> says that the call \<open>op\<close> rejects with an
  error of message \<open>m\<close>, before any effect.
\<close>

datatype dbop = UserFindOne | UserFindById | MessageSave | ChatFind | ChatFindOneAndUpdate

type_synonym faults = "dbop \<Rightarrow> string option"

text \<open>
  \<^verbatim>\<open>createMessage\<close>: \<open>newId\<close> is the identifier the model constructor generates when the
  data has none. Both the missing user and any rejected call end in the one \<^verbatim>\<open>catch\<close>.
\<close>

definition createMessage ::
  "faults \<Rightarrow> string \<Rightarrow> Database \<Rightarrow> Message \<Rightarrow> (string + Message) \<times> Database" where
  "createMessage fault newId db messageData =
     (case fault UserFindOne of
        Some _ \<Rightarrow> (Inl ''Error creating message: User not found'', db)
      | None \<Rightarrow>
          (case find (\<lambda>u. username u = msgFrom messageData) (users db) of
             None \<Rightarrow> (Inl ''Error creating message: User not found'', db)
           | Some userExists \<Rightarrow>
               (let message = messageData
                      \<lparr>msgType := ''direct'',
                       message_id := (case message_id messageData of
                                        None \<Rightarrow> Some newId | Some i \<Rightarrow> Some i)\<rparr>
                in case fault MessageSave of
                     Some _ \<Rightarrow> (Inl ''Error creating message: User not found'', db)
                   | None \<Rightarrow>
                       (Inr message, db\<lparr>storedMessages := storedMessages db @ [message]\<rparr>))))"

text \<open>
  \<^verbatim>\<open>getChatsByParticipants\<close>: the query \<^verbatim>\<open>{ participants: { $all: p } }\<close> matches the
  chats whose participants contain every element of \<open>p\<close>, and no chat when \<open>p\<close> is empty.
  The result of \<^verbatim>\<open>find\<close> is an array, so the test \<^verbatim>\<open>!chats\<close> is never true.
\<close>

definition getChatsByParticipants :: "faults \<Rightarrow> Database \<Rightarrow> string list \<Rightarrow> Chat list" where
  "getChatsByParticipants fault db p =
     (case fault ChatFind of
        Some _ \<Rightarrow> []
      | None \<Rightarrow> if p = [] then [] else filter (\<lambda>c. set p \<subseteq> set (participants c)) (chats db))"

text \<open>
  \<^verbatim>\<open>findOneAndUpdate(filter, update, { new: true })\<close>: the first document that matches
  is updated; the result is the updated document and the collection afterwards, or
  \<open>None\<close> (\<^verbatim>\<open>null\<close>) when no document matches.
\<close>

fun findOneAndUpdate :: "(Chat \<Rightarrow> bool) \<Rightarrow> (Chat \<Rightarrow> Chat) \<Rightarrow> Chat list \<Rightarrow> (Chat \<times> Chat list) option" where
  "findOneAndUpdate filt upd [] = None"
| "findOneAndUpdate filt upd (c # cs) =
     (if filt c then Some (upd c, upd c # cs)
      else map_option (\<lambda>(u, cs'). (u, c # cs')) (findOneAndUpdate filt upd cs))"

definition addParticipantToChat ::
  "faults \<Rightarrow> Database \<Rightarrow> string \<Rightarrow> string \<Rightarrow> (string + Chat) \<times> Database" where
  "addParticipantToChat fault db chatId userId =
     (case fault UserFindById of
        Some m \<Rightarrow> (Inl (''Error adding participant to chat: '' @ m), db)
      | None \<Rightarrow>
          (case find (\<lambda>u. user_id u = userId) (users db) of
             None \<Rightarrow> (Inl (''Error adding participant to chat: '' @ ''User does not exist.''), db)
           | Some userExists \<Rightarrow>
               (case fault ChatFindOneAndUpdate of
                  Some m \<Rightarrow> (Inl (''Error adding participant to chat: '' @ m), db)
                | None \<Rightarrow>
                    (case findOneAndUpdate
                            (\<lambda>c. chat_id c = Some chatId \<and> userId \<notin> set (participants c))
                            (\<lambda>c. c\<lparr>participants := participants c @ [userId]\<rparr>)
                            (chats db) of
                       None \<Rightarrow>
                         (Inl (''Error adding participant to chat: ''
                               @ ''Chat not found or user already a participant.''), db)
                     | Some (updatedChat, chats') \<Rightarrow>
                         (Inr updatedChat, db\<lparr>chats := chats'\<rparr>)))))"

section \<open>The move input: what the handler stores\<close>

lemma Number_js_single:
  "Number_js [c] =
     (if StrWhiteSpaceChar c then Num 0
      else if DecimalDigit c then Num (digit_value c) else NaN)"
  by (simp add: Number_js_def trim_def)

lemma digit_in_range:
  "DecimalDigit c \<and> 1 \<le> digit_value c \<and> digit_value c \<le> 3 \<longleftrightarrow> c \<in> set ''123''"
  by (auto simp: DecimalDigit_def digit_value_def)

lemma white_not_digit: "StrWhiteSpaceChar c \<Longrightarrow> c \<notin> set ''123''"
  by (auto simp: StrWhiteSpaceChar_def)

lemma accepts_iff:
  "js_ge (Number_js [c]) (Num 1) \<and> js_le (Number_js [c]) (Num 3) \<longleftrightarrow> c \<in> set ''123''"
proof (cases "StrWhiteSpaceChar c")
  case True
  then show ?thesis
    using white_not_digit [of c] by (simp add: Number_js_single)
next
  case False
  then show ?thesis
    using digit_in_range [of c] by (auto simp: Number_js_single)
qed

lemma accepted_value:
  "c \<in> set ''123'' \<Longrightarrow> Number_js [c] = Num (digit_value c)"
  by (auto simp: Number_js_single StrWhiteSpaceChar_def DecimalDigit_def)

lemma digit_value_123: "c \<in> set ''123'' \<Longrightarrow> digit_value c \<in> {1, 2, 3}"
  by (auto simp: digit_value_def)

lemma handleInputChange_cleared: "handleInputChange [] mv = MoveNum (Num 1)"
  by (simp add: handleInputChange_def)

lemma handleInputChange_kept:
  "val \<noteq> [] \<Longrightarrow> last val \<notin> set ''123'' \<Longrightarrow> handleInputChange val mv = mv"
  using accepts_iff [of "last val"]
  by (auto simp: handleInputChange_def slice_last_def Let_def)

lemma handleInputChange_stored:
  "val \<noteq> [] \<Longrightarrow> last val \<in> set ''123'' \<Longrightarrow>
     handleInputChange val mv = MoveNum (Num (digit_value (last val)))"
  using accepts_iff [of "last val"] accepted_value [of "last val"]
  by (auto simp: handleInputChange_def slice_last_def Let_def)

text \<open>
  Claim C7. After any input change event the stored move is unchanged when the new text is
  non-empty and its last character is not one of the digits 1, 2, 3; it is that digit
  when the last character is one of them; and it is 1 when the field was cleared. So the
  state after the event is the state before it or one of the integers 1, 2, 3.
\<close>

theorem handleInputChange_accepts_only_1_to_3:
  "(val \<noteq> [] \<and> last val \<notin> set ''123'' \<longrightarrow> handleInputChange val mv = mv) \<and>
   (val \<noteq> [] \<and> last val \<in> set ''123'' \<longrightarrow>
      handleInputChange val mv = MoveNum (Num (digit_value (last val))) \<and>
      digit_value (last val) \<in> {1, 2, 3}) \<and>
   (val = [] \<longrightarrow> handleInputChange val mv = MoveNum (Num 1)) \<and>
   (handleInputChange val mv = mv \<or>
    handleInputChange val mv \<in> {MoveNum (Num 1), MoveNum (Num 2), MoveNum (Num 3)})"
proof -
  consider (cleared) "val = []"
    | (kept) "val \<noteq> []" "last val \<notin> set ''123''"
    | (stored) "val \<noteq> []" "last val \<in> set ''123''"
    by blast
  then show ?thesis
  proof cases
    case cleared
    then show ?thesis using handleInputChange_cleared [of mv] by simp
  next
    case kept
    then show ?thesis using handleInputChange_kept [of val mv] by simp
  next
    case stored
    have "handleInputChange val mv = MoveNum (Num (digit_value (last val)))"
      using stored by (rule handleInputChange_stored)
    moreover have "digit_value (last val) \<in> {1, 2, 3}"
      using stored(2) by (rule digit_value_123)
    ultimately show ?thesis using stored by auto
  qed
qed

theorem handleInputChange_accepts_only_1_to_3_witness:
  "handleInputChange ''47'' (MoveNum (Num 2)) = MoveNum (Num 2) \<and>
   handleInputChange ''52'' (MoveStr []) = MoveNum (Num 2) \<and>
   handleInputChange [] (MoveNum (Num 3)) = MoveNum (Num 1)"
  using handleInputChange_accepts_only_1_to_3 [of "''47''" "MoveNum (Num 2)"]
    handleInputChange_accepts_only_1_to_3 [of "''52''" "MoveStr []"]
    handleInputChange_accepts_only_1_to_3 [of "[]" "MoveNum (Num 3)"]
  by (simp add: digit_value_def)

section \<open>The move submission: what the client emits\<close>

lemma handleInputChange_accepted:
  "\<not> (val \<noteq> [] \<and> last val \<notin> set ''123'') \<Longrightarrow>
     handleInputChange val mv \<in> {MoveNum (Num 1), MoveNum (Num 2), MoveNum (Num 3)}"
proof (cases "val = []")
  case True
  then show ?thesis by (simp add: handleInputChange_cleared)
next
  case False
  assume "\<not> (val \<noteq> [] \<and> last val \<notin> set ''123'')"
  with False have in123: "last val \<in> set ''123''" by simp
  show ?thesis
    using handleInputChange_stored [OF False in123, of mv] digit_value_123 [OF in123]
    by auto
qed

lemma inputs_all_ignored:
  "\<forall>val \<in> set vals. val \<noteq> [] \<and> last val \<notin> set ''123'' \<Longrightarrow>
     foldl (\<lambda>mv val. handleInputChange val mv) m vals = m"
  by (induction vals arbitrary: m) (simp_all add: handleInputChange_kept)

lemma inputs_some_accepted:
  "\<not> (\<forall>val \<in> set vals. val \<noteq> [] \<and> last val \<notin> set ''123'') \<Longrightarrow>
     foldl (\<lambda>mv val. handleInputChange val mv) m vals
       \<in> {MoveNum (Num 1), MoveNum (Num 2), MoveNum (Num 3)}"
proof (induction vals rule: rev_induct)
  case Nil
  then show ?case by simp
next
  case (snoc x xs)
  show ?case
  proof (cases "x \<noteq> [] \<and> last x \<notin> set ''123''")
    case True
    then have "handleInputChange x (foldl (\<lambda>mv val. handleInputChange val mv) m xs)
                 = foldl (\<lambda>mv val. handleInputChange val mv) m xs"
      by (simp add: handleInputChange_kept)
    moreover have "\<not> (\<forall>val \<in> set xs. val \<noteq> [] \<and> last val \<notin> set ''123'')"
      using snoc.prems True by auto
    ultimately show ?thesis using snoc.IH by simp
  next
    case False
    then show ?thesis
      using handleInputChange_accepted [of x] by simp
  qed
qed

text \<open>
  Claim C5, as the code has it. Whatever input events came before, the emitted
  \<^verbatim>\<open>makeMove\<close> event carries the game's identifier and, as its move, the user's username,
  the game's identifier and \<^verbatim>\<open>numObjects = Number(move)\<close>. That number is 0, 1, 2 or 3,
  and it is 0 exactly when no input event was accepted, so that the move state is still
  the initial empty string.
\<close>

theorem handleMakeMove_payload:
  "handleMakeMove user game (moveAfter vals) =
     (''makeMove'',
      \<lparr>payloadGameID = gameID game,
       payloadMove = \<lparr>playerID = username user, moveGameID = gameID game,
                      move = \<lparr>numObjects = Number_move (moveAfter vals)\<rparr>\<rparr>\<rparr>) \<and>
   Number_move (moveAfter vals) \<in> {Num 0, Num 1, Num 2, Num 3} \<and>
   (Number_move (moveAfter vals) = Num 0 \<longleftrightarrow>
      (\<forall>val \<in> set vals. val \<noteq> [] \<and> last val \<notin> set ''123''))"
proof (cases "\<forall>val \<in> set vals. val \<noteq> [] \<and> last val \<notin> set ''123''")
  case True
  then have "moveAfter vals = MoveStr []"
    by (simp add: moveAfter_def initialMove_def inputs_all_ignored)
  then have "Number_move (moveAfter vals) = Num 0"
    by (simp add: Number_js_def trim_def)
  then show ?thesis
    using True by (simp add: handleMakeMove_def)
next
  case False
  then have "moveAfter vals \<in> {MoveNum (Num 1), MoveNum (Num 2), MoveNum (Num 3)}"
    unfolding moveAfter_def by (rule inputs_some_accepted)
  then have "Number_move (moveAfter vals) \<in> {Num 1, Num 2, Num 3}"
    by auto
  then show ?thesis
    using False by (auto simp: handleMakeMove_def)
qed

theorem handleMakeMove_payload_witness:
  "handleMakeMove \<lparr>user_id = ''2'', username = ''bob''\<rparr>
      \<lparr>gameID = ''g1'', gameType = ''Nim'', players = [''alice'', ''bob''],
        state = \<lparr>status = IN_PROGRESS, player1 = Some ''alice'', player2 = Some ''bob'',
                  moves = [], remainingObjects = Num 5, winners = None\<rparr>\<rparr>
      (moveAfter [''5'', ''52''])
    = (''makeMove'',
       \<lparr>payloadGameID = ''g1'',
        payloadMove = \<lparr>playerID = ''bob'', moveGameID = ''g1'',
                       move = \<lparr>numObjects = Num 2\<rparr>\<rparr>\<rparr>) \<and>
   Number_move (moveAfter [''5'', ''7'']) = Num 0"
proof -
  have a: "moveAfter [''5'', ''52''] = MoveNum (Num 2)"
    by (simp add: moveAfter_def initialMove_def handleInputChange_def slice_last_def
        Number_js_def trim_def StrWhiteSpaceChar_def DecimalDigit_def digit_value_def)
  show ?thesis
    using handleMakeMove_payload [of "\<lparr>user_id = ''2'', username = ''bob''\<rparr>"
        "\<lparr>gameID = ''g1'', gameType = ''Nim'', players = [''alice'', ''bob''],
          state = \<lparr>status = IN_PROGRESS, player1 = Some ''alice'', player2 = Some ''bob'',
                    moves = [], remainingObjects = Num 5, winners = None\<rparr>\<rparr>"
        "[''5'', ''52'']"]
      handleMakeMove_payload [of "\<lparr>user_id = ''2'', username = ''bob''\<rparr>"
        "\<lparr>gameID = ''g1'', gameType = ''Nim'', players = [''alice'', ''bob''],
          state = \<lparr>status = IN_PROGRESS, player1 = Some ''alice'', player2 = Some ''bob'',
                    moves = [], remainingObjects = Num 5, winners = None\<rparr>\<rparr>"
        "[''5'', ''7'']"]
    by (simp add: a)
qed

text \<open>
  The claim as stated fails when the user whose turn it is presses the enabled submit
  button before typing anything: the move state is still the empty string and the emitted
  \<^verbatim>\<open>numObjects\<close> is 0, which is not in 1..3.
\<close>

theorem handleMakeMove_empty_input_counterexample:
  "handleMakeMove \<lparr>user_id = ''2'', username = ''bob''\<rparr>
      \<lparr>gameID = ''g1'', gameType = ''Nim'', players = [''bob'', ''alice''],
        state = \<lparr>status = IN_PROGRESS, player1 = Some ''bob'', player2 = Some ''alice'',
                  moves = [], remainingObjects = Num 5, winners = None\<rparr>\<rparr>
      initialMove
    = (''makeMove'',
       \<lparr>payloadGameID = ''g1'',
        payloadMove = \<lparr>playerID = ''bob'', moveGameID = ''g1'',
                       move = \<lparr>numObjects = Num 0\<rparr>\<rparr>\<rparr>) \<and>
   \<not> js_ge (Num 0) (Num 1) \<and>
   moveForm (NimGamePage \<lparr>user_id = ''2'', username = ''bob''\<rparr> initialMove
      \<lparr>gameID = ''g1'', gameType = ''Nim'', players = [''bob'', ''alice''],
        state = \<lparr>status = IN_PROGRESS, player1 = Some ''bob'', player2 = Some ''alice'',
                  moves = [], remainingObjects = Num 5, winners = None\<rparr>\<rparr>)
    = Some \<lparr>inputValue = MoveStr [], submitDisabled = False\<rparr>"
  by (simp add: handleMakeMove_def initialMove_def Number_js_def trim_def NimGamePage_def
      js_index_def)

section \<open>The game page: whose turn it is\<close>

lemma current_player_two:
  "js_index [a, b] (n mod 2) = Some (if even n then a else b)"
  by (cases "even n") (auto simp: js_index_def odd_iff_mod_2_eq_one)

text \<open>
  Claim C2. The current player the page shows is \<^verbatim>\<open>players[moves.length % 2]\<close>; the submit
  button of the move form is disabled exactly when that player is not the user; the value
  depends on the players and on the number of moves only (no stored turn field is read);
  and with two players it is the first after an even number of moves and the second after
  an odd number.
\<close>

theorem current_player_from_move_count:
  "currentPlayerToMove (NimGamePage user mv game)
     = js_index (players game) (length (moves (state game)) mod 2) \<and>
   (\<forall>form. moveForm (NimGamePage user mv game) = Some form \<longrightarrow>
      (submitDisabled form \<longleftrightarrow>
         currentPlayerToMove (NimGamePage user mv game) \<noteq> Some (username user))) \<and>
   (players game' = players game \<and>
    length (moves (state game')) = length (moves (state game)) \<longrightarrow>
      currentPlayerToMove (NimGamePage user' mv' game')
        = currentPlayerToMove (NimGamePage user mv game)) \<and>
   (players game = [a, b] \<longrightarrow>
      currentPlayerToMove (NimGamePage user mv game)
        = Some (if even (length (moves (state game))) then a else b))"
  by (auto simp: NimGamePage_def current_player_two)

theorem current_player_from_move_count_witness:
  "currentPlayerToMove (NimGamePage \<lparr>user_id = ''2'', username = ''bob''\<rparr> (MoveNum (Num 1))
      \<lparr>gameID = ''g1'', gameType = ''Nim'', players = [''alice'', ''bob''],
        state = \<lparr>status = IN_PROGRESS, player1 = Some ''alice'', player2 = Some ''bob'',
                  moves = [\<lparr>playerID = ''alice'', moveGameID = ''g1'',
                            move = \<lparr>numObjects = Num 2\<rparr>\<rparr>],
                  remainingObjects = Num 3, winners = None\<rparr>\<rparr>) = Some ''bob'' \<and>
   moveForm (NimGamePage \<lparr>user_id = ''2'', username = ''bob''\<rparr> (MoveNum (Num 1))
      \<lparr>gameID = ''g1'', gameType = ''Nim'', players = [''alice'', ''bob''],
        state = \<lparr>status = IN_PROGRESS, player1 = Some ''alice'', player2 = Some ''bob'',
                  moves = [\<lparr>playerID = ''alice'', moveGameID = ''g1'',
                            move = \<lparr>numObjects = Num 2\<rparr>\<rparr>],
                  remainingObjects = Num 3, winners = None\<rparr>\<rparr>)
     = Some \<lparr>inputValue = MoveNum (Num 1), submitDisabled = False\<rparr>"
proof -
  let ?user = "\<lparr>user_id = ''2'', username = ''bob''\<rparr>"
  let ?game = "\<lparr>gameID = ''g1'', gameType = ''Nim'', players = [''alice'', ''bob''],
        state = \<lparr>status = IN_PROGRESS, player1 = Some ''alice'', player2 = Some ''bob'',
                  moves = [\<lparr>playerID = ''alice'', moveGameID = ''g1'',
                            move = \<lparr>numObjects = Num 2\<rparr>\<rparr>],
                  remainingObjects = Num 3, winners = None\<rparr>\<rparr>"
  note inst = current_player_from_move_count
        [where user = ?user and mv = "MoveNum (Num 1)" and game = ?game
           and a = "''alice''" and b = "''bob''" and game' = ?game
           and user' = ?user and mv' = "MoveNum (Num 1)"]
  have two: "players ?game = [''alice'', ''bob'']" by simp
  have form: "moveForm (NimGamePage ?user (MoveNum (Num 1)) ?game)
      = Some \<lparr>inputValue = MoveNum (Num 1),
               submitDisabled = (js_index [''alice'', ''bob''] (Suc 0 mod 2) \<noteq> Some ''bob'')\<rparr>"
    by (simp add: NimGamePage_def)
  have "currentPlayerToMove (NimGamePage ?user (MoveNum (Num 1)) ?game)
      = Some (if even (length (moves (state ?game))) then ''alice'' else ''bob'')"
    using inst [THEN conjunct2, THEN conjunct2, THEN conjunct2] two by blast
  then have cur: "currentPlayerToMove (NimGamePage ?user (MoveNum (Num 1)) ?game) = Some ''bob''"
    by simp
  have "submitDisabled \<lparr>inputValue = MoveNum (Num 1),
               submitDisabled = (js_index [''alice'', ''bob''] (Suc 0 mod 2) \<noteq> Some ''bob'')\<rparr>
      \<longleftrightarrow> currentPlayerToMove (NimGamePage ?user (MoveNum (Num 1)) ?game) \<noteq> Some (username ?user)"
    using inst [THEN conjunct2, THEN conjunct1] form by blast
  then have "\<not> (js_index [''alice'', ''bob''] (Suc 0 mod 2) \<noteq> Some ''bob'')"
    unfolding cur by simp
  then have "moveForm (NimGamePage ?user (MoveNum (Num 1)) ?game)
      = Some \<lparr>inputValue = MoveNum (Num 1), submitDisabled = False\<rparr>"
    unfolding form by simp
  with cur show ?thesis by blast
qed

section \<open>Game errors: only the named player\<close>

text \<open>
  Claim C6. On a \<^verbatim>\<open>gameError\<close> payload (a player and an error text) the hook sets its
  error state to the payload's text when the payload's player is the user's username, and
  leaves its whole state as it was otherwise; the state changes only if the names are
  equal, and the game state and the joined game are never touched.
\<close>

theorem handleGameError_only_named_player:
  "(player gameError = username user \<longrightarrow>
      handleGameError user gameError st = st\<lparr>errorState := Some (error gameError)\<rparr>) \<and>
   (player gameError \<noteq> username user \<longrightarrow> handleGameError user gameError st = st) \<and>
   (handleGameError user gameError st \<noteq> st \<longrightarrow> player gameError = username user) \<and>
   gameState (handleGameError user gameError st) = gameState st \<and>
   joinedGameID (handleGameError user gameError st) = joinedGameID st"
  by (simp add: handleGameError_def)

theorem handleGameError_only_named_player_witness:
  "handleGameError \<lparr>user_id = ''1'', username = ''alice''\<rparr>
      \<lparr>player = ''alice'', error = ''not your turn''\<rparr>
      \<lparr>gameState = None, joinedGameID = Some ''g1'', errorState = None\<rparr>
    = \<lparr>gameState = None, joinedGameID = Some ''g1'', errorState = Some ''not your turn''\<rparr> \<and>
   handleGameError \<lparr>user_id = ''2'', username = ''bob''\<rparr>
      \<lparr>player = ''alice'', error = ''not your turn''\<rparr>
      \<lparr>gameState = None, joinedGameID = Some ''g1'', errorState = None\<rparr>
    = \<lparr>gameState = None, joinedGameID = Some ''g1'', errorState = None\<rparr>"
  using handleGameError_only_named_player
      [of "\<lparr>player = ''alice'', error = ''not your turn''\<rparr>"
          "\<lparr>user_id = ''1'', username = ''alice''\<rparr>"
          "\<lparr>gameState = None, joinedGameID = Some ''g1'', errorState = None\<rparr>"]
    handleGameError_only_named_player
      [of "\<lparr>player = ''alice'', error = ''not your turn''\<rparr>"
          "\<lparr>user_id = ''2'', username = ''bob''\<rparr>"
          "\<lparr>gameState = None, joinedGameID = Some ''g1'', errorState = None\<rparr>"]
  by simp

section \<open>The move protocol: validation, resolution, submission\<close>

lemma count_in_range:
  "js_ge c (Num 1) \<and> js_le c (Num 3) \<longleftrightarrow> (\<exists>n. c = Num n \<and> 1 \<le> n \<and> n \<le> 3)"
  by (cases c) auto

lemma count_fits:
  "js_le (Num n) r \<longleftrightarrow> (\<exists>k. r = Num k \<and> n \<le> k)"
  by (cases r) auto

lemma validate_Ok_iff:
  "validate game mv = Ok \<longleftrightarrow>
     status (state game) = IN_PROGRESS \<and>
     js_index (players game) (length (moves (state game)) mod 2) = Some (playerID mv) \<and>
     (\<exists>n k. numObjects (move mv) = Num n \<and> 1 \<le> n \<and> n \<le> 3 \<and>
            remainingObjects (state game) = Num k \<and> n \<le> k)"
proof -
  have "js_ge c (Num 1) \<and> js_le c (Num 3) \<and> js_le c r \<longleftrightarrow>
        (\<exists>n k. c = Num n \<and> 1 \<le> n \<and> n \<le> 3 \<and> r = Num k \<and> n \<le> k)" for c r
    by (cases c; cases r) auto
  from this [of "numObjects (move mv)" "remainingObjects (state game)"]
  show ?thesis
    unfolding validate_def by (auto split: if_splits)
qed

lemma validate_over:
  "status (state game) = OVER \<Longrightarrow> validate game mv = Rejected ''game not active''"
  by (simp add: validate_def)

lemma resolve_remaining:
  "remainingObjects (state (resolve game mv))
     = js_minus (remainingObjects (state game)) (numObjects (move mv))"
  by (simp add: resolve_def Let_def)

lemma resolve_empties_pile:
  "js_minus (remainingObjects (state game)) (numObjects (move mv)) = Num 0 \<Longrightarrow>
     status (state (resolve game mv)) = OVER \<and>
     winners (state (resolve game mv)) = Some [playerID mv]"
  by (simp add: resolve_def Let_def)

text \<open>
  Claim C1. For a move that validation accepts, the pile is empty afterwards exactly when
  the move takes all that remained; then the resolved game has status OVER and the mover
  as its only winner, and every later move is rejected because the game is not active, so
  the game is over once and stays so.
\<close>

theorem resolve_last_object_wins:
  "validate game mv = Ok \<Longrightarrow>
     (remainingObjects (state (resolve game mv)) = Num 0 \<longleftrightarrow>
        numObjects (move mv) = remainingObjects (state game)) \<and>
     (numObjects (move mv) = remainingObjects (state game) \<longrightarrow>
        status (state (resolve game mv)) = OVER \<and>
        winners (state (resolve game mv)) = Some [playerID mv] \<and>
        (\<forall>mv'. validate (resolve game mv) mv' = Rejected ''game not active''))"
proof -
  assume ok: "validate game mv = Ok"
  then obtain n k where nk: "numObjects (move mv) = Num n" "remainingObjects (state game) = Num k"
    unfolding validate_Ok_iff by blast
  have zero: "remainingObjects (state (resolve game mv)) = Num 0 \<longleftrightarrow>
        numObjects (move mv) = remainingObjects (state game)"
    using nk by (auto simp: resolve_remaining)
  have last: "status (state (resolve game mv)) = OVER \<and>
      winners (state (resolve game mv)) = Some [playerID mv]"
    if "numObjects (move mv) = remainingObjects (state game)"
    using that nk by (intro resolve_empties_pile) simp
  show ?thesis
    using zero last validate_over by blast
qed

theorem resolve_last_object_wins_witness:
  "validate
      \<lparr>gameID = ''g1'', gameType = ''Nim'', players = [''alice'', ''bob''],
        state = \<lparr>status = IN_PROGRESS, player1 = Some ''alice'', player2 = Some ''bob'',
                  moves = [\<lparr>playerID = ''alice'', moveGameID = ''g1'',
                            move = \<lparr>numObjects = Num 2\<rparr>\<rparr>],
                  remainingObjects = Num 1, winners = None\<rparr>\<rparr>
      \<lparr>playerID = ''bob'', moveGameID = ''g1'', move = \<lparr>numObjects = Num 1\<rparr>\<rparr> = Ok \<and>
   status (state (resolve
      \<lparr>gameID = ''g1'', gameType = ''Nim'', players = [''alice'', ''bob''],
        state = \<lparr>status = IN_PROGRESS, player1 = Some ''alice'', player2 = Some ''bob'',
                  moves = [\<lparr>playerID = ''alice'', moveGameID = ''g1'',
                            move = \<lparr>numObjects = Num 2\<rparr>\<rparr>],
                  remainingObjects = Num 1, winners = None\<rparr>\<rparr>
      \<lparr>playerID = ''bob'', moveGameID = ''g1'', move = \<lparr>numObjects = Num 1\<rparr>\<rparr>)) = OVER \<and>
   winners (state (resolve
      \<lparr>gameID = ''g1'', gameType = ''Nim'', players = [''alice'', ''bob''],
        state = \<lparr>status = IN_PROGRESS, player1 = Some ''alice'', player2 = Some ''bob'',
                  moves = [\<lparr>playerID = ''alice'', moveGameID = ''g1'',
                            move = \<lparr>numObjects = Num 2\<rparr>\<rparr>],
                  remainingObjects = Num 1, winners = None\<rparr>\<rparr>
      \<lparr>playerID = ''bob'', moveGameID = ''g1'', move = \<lparr>numObjects = Num 1\<rparr>\<rparr>))
     = Some [''bob'']"
proof -
  let ?game = "\<lparr>gameID = ''g1'', gameType = ''Nim'', players = [''alice'', ''bob''],
        state = \<lparr>status = IN_PROGRESS, player1 = Some ''alice'', player2 = Some ''bob'',
                  moves = [\<lparr>playerID = ''alice'', moveGameID = ''g1'',
                            move = \<lparr>numObjects = Num 2\<rparr>\<rparr>],
                  remainingObjects = Num 1, winners = None\<rparr>\<rparr>"
  let ?mv = "\<lparr>playerID = ''bob'', moveGameID = ''g1'', move = \<lparr>numObjects = Num 1\<rparr>\<rparr>"
  have ok: "validate ?game ?mv = Ok"
    by (simp add: validate_def js_index_def)
  have all: "numObjects (move ?mv) = remainingObjects (state ?game)"
    by simp
  from resolve_last_object_wins [OF ok, THEN conjunct2] all
  have "status (state (resolve ?game ?mv)) = OVER \<and>
        winners (state (resolve ?game ?mv)) = Some [playerID ?mv]"
    by blast
  then show ?thesis using ok by simp
qed

text \<open>
  Claim C3. The four checks of the validator run in order and the first that fails gives
  the reason: a game that is not in progress is "game not active" whatever the move; then
  a mover who is not \<^verbatim>\<open>participants[moves.length % 2]\<close> is "not your turn"; then a count
  that is not an integer from 1 to 3 is "invalid move count"; then a count above the pile
  is "insufficient objects"; and a move passing all four is accepted. In particular a
  count of 4 against a pile of 5 is "invalid move count". The validator is a function of
  the game and the move and returns only the verdict.
\<close>

theorem validate_check_order:
  "(status (state game) \<noteq> IN_PROGRESS \<longrightarrow> validate game mv = Rejected ''game not active'') \<and>
   (status (state game) = IN_PROGRESS \<and>
    js_index (players game) (length (moves (state game)) mod 2) \<noteq> Some (playerID mv) \<longrightarrow>
      validate game mv = Rejected ''not your turn'') \<and>
   (status (state game) = IN_PROGRESS \<and>
    js_index (players game) (length (moves (state game)) mod 2) = Some (playerID mv) \<and>
    \<not> (\<exists>n. numObjects (move mv) = Num n \<and> 1 \<le> n \<and> n \<le> 3) \<longrightarrow>
      validate game mv = Rejected ''invalid move count'') \<and>
   (status (state game) = IN_PROGRESS \<and>
    js_index (players game) (length (moves (state game)) mod 2) = Some (playerID mv) \<and>
    numObjects (move mv) = Num n \<and> 1 \<le> n \<and> n \<le> 3 \<and>
    \<not> (\<exists>k. remainingObjects (state game) = Num k \<and> n \<le> k) \<longrightarrow>
      validate game mv = Rejected ''insufficient objects'') \<and>
   (status (state game) = IN_PROGRESS \<and>
    js_index (players game) (length (moves (state game)) mod 2) = Some (playerID mv) \<and>
    numObjects (move mv) = Num n \<and> 1 \<le> n \<and> n \<le> 3 \<and>
    remainingObjects (state game) = Num k \<and> n \<le> k \<longrightarrow>
      validate game mv = Ok) \<and>
   (status (state game) = IN_PROGRESS \<and>
    js_index (players game) (length (moves (state game)) mod 2) = Some (playerID mv) \<and>
    numObjects (move mv) = Num 4 \<and> remainingObjects (state game) = Num 5 \<longrightarrow>
      validate game mv = Rejected ''invalid move count'')"
proof -
  have range: "js_ge (numObjects (move mv)) (Num 1) \<and> js_le (numObjects (move mv)) (Num 3)
      \<longleftrightarrow> (\<exists>n. numObjects (move mv) = Num n \<and> 1 \<le> n \<and> n \<le> 3)"
    by (rule count_in_range)
  show ?thesis
    unfolding validate_def using range by (auto simp: count_fits)
qed

theorem validate_check_order_witness:
  "validate
      \<lparr>gameID = ''g1'', gameType = ''Nim'', players = [''alice'', ''bob''],
        state = \<lparr>status = IN_PROGRESS, player1 = Some ''alice'', player2 = Some ''bob'',
                  moves = [], remainingObjects = Num 5, winners = None\<rparr>\<rparr>
      \<lparr>playerID = ''alice'', moveGameID = ''g1'', move = \<lparr>numObjects = Num 4\<rparr>\<rparr>
     = Rejected ''invalid move count'' \<and>
   validate
      \<lparr>gameID = ''g1'', gameType = ''Nim'', players = [''alice'', ''bob''],
        state = \<lparr>status = IN_PROGRESS, player1 = Some ''alice'', player2 = Some ''bob'',
                  moves = [], remainingObjects = Num 5, winners = None\<rparr>\<rparr>
      \<lparr>playerID = ''bob'', moveGameID = ''g1'', move = \<lparr>numObjects = Num 4\<rparr>\<rparr>
     = Rejected ''not your turn''"
proof -
  let ?game = "\<lparr>gameID = ''g1'', gameType = ''Nim'', players = [''alice'', ''bob''],
        state = \<lparr>status = IN_PROGRESS, player1 = Some ''alice'', player2 = Some ''bob'',
                  moves = [], remainingObjects = Num 5, winners = None\<rparr>\<rparr>"
  let ?a = "\<lparr>playerID = ''alice'', moveGameID = ''g1'', move = \<lparr>numObjects = Num 4\<rparr>\<rparr>"
  let ?b = "\<lparr>playerID = ''bob'', moveGameID = ''g1'', move = \<lparr>numObjects = Num 4\<rparr>\<rparr>"
  have turn: "js_index (players ?game) (length (moves (state ?game)) mod 2) = Some ''alice''"
    by (simp add: js_index_def)
  have "validate ?game ?a = Rejected ''invalid move count''"
    using validate_check_order [of ?game ?a 0 0] turn by simp
  moreover have "validate ?game ?b = Rejected ''not your turn''"
    using validate_check_order [of ?game ?b 0 0] turn by simp
  ultimately show ?thesis by blast
qed

lemma submitMove_cases:
  "submitMove store gid mv =
     (case get store gid of
        None \<Rightarrow> (store, NotFoundError, [])
      | Some game \<Rightarrow>
          (case validate game mv of
             Rejected reason \<Rightarrow>
               (store, RejectedMove reason,
                [ErrorEvent (playerID mv) \<lparr>player = playerID mv, error = reason\<rparr>])
           | Ok \<Rightarrow>
               (if available store
                then (store\<lparr>games := (games store)(gid \<mapsto> resolve game mv)\<rparr>, Committed,
                      [UpdateEvent gid (resolve game mv)])
                else (store, PersistenceError, []))))"
  by (simp add: submitMove_def put_def Let_def split: option.splits validation.splits)

text \<open>
  Claim C4. A submitted move is committed as a whole or not at all. When the outcome is
  Committed, the game was found, the move was valid, and the store afterwards is the store
  before with the resolved game written over that one identifier, the update being the
  only event. With any other outcome (unknown game, rejected move, store unavailable) the
  store afterwards is the store before. A move by a player who is not
  \<^verbatim>\<open>participants[moves.length % 2]\<close> is rejected, leaves the store as it was, and its only
  event is the error addressed to the mover.
\<close>

theorem submitMove_atomic:
  "(fst (snd (submitMove store gid mv)) = Committed \<longrightarrow>
      (\<exists>game. get store gid = Some game \<and> validate game mv = Ok \<and>
         submitMove store gid mv =
           (store\<lparr>games := (games store)(gid \<mapsto> resolve game mv)\<rparr>, Committed,
            [UpdateEvent gid (resolve game mv)]))) \<and>
   (fst (snd (submitMove store gid mv)) \<noteq> Committed \<longrightarrow>
      fst (submitMove store gid mv) = store) \<and>
   (\<forall>game. get store gid = Some game \<and>
      js_index (players game) (length (moves (state game)) mod 2) \<noteq> Some (playerID mv) \<longrightarrow>
        fst (submitMove store gid mv) = store \<and>
        (\<exists>reason. snd (submitMove store gid mv)
           = (RejectedMove reason,
              [ErrorEvent (playerID mv) \<lparr>player = playerID mv, error = reason\<rparr>])))"
proof -
  have turn: "validate game mv \<noteq> Ok"
    if "js_index (players game) (length (moves (state game)) mod 2) \<noteq> Some (playerID mv)"
    for game
    using that by (simp add: validate_Ok_iff)
  show ?thesis
    unfolding submitMove_cases using turn
    by (auto split: option.splits validation.splits)
qed

theorem submitMove_atomic_witness:
  "fst (submitMove
      \<lparr>games = [''g1'' \<mapsto>
          \<lparr>gameID = ''g1'', gameType = ''Nim'', players = [''alice'', ''bob''],
            state = \<lparr>status = IN_PROGRESS, player1 = Some ''alice'', player2 = Some ''bob'',
                      moves = [], remainingObjects = Num 5, winners = None\<rparr>\<rparr>],
        available = True\<rparr>
      ''g1'' \<lparr>playerID = ''bob'', moveGameID = ''g1'', move = \<lparr>numObjects = Num 1\<rparr>\<rparr>)
    = \<lparr>games = [''g1'' \<mapsto>
          \<lparr>gameID = ''g1'', gameType = ''Nim'', players = [''alice'', ''bob''],
            state = \<lparr>status = IN_PROGRESS, player1 = Some ''alice'', player2 = Some ''bob'',
                      moves = [], remainingObjects = Num 5, winners = None\<rparr>\<rparr>],
        available = True\<rparr> \<and>
   fst (submitMove
      \<lparr>games = [''g1'' \<mapsto>
          \<lparr>gameID = ''g1'', gameType = ''Nim'', players = [''alice'', ''bob''],
            state = \<lparr>status = IN_PROGRESS, player1 = Some ''alice'', player2 = Some ''bob'',
                      moves = [], remainingObjects = Num 5, winners = None\<rparr>\<rparr>],
        available = False\<rparr>
      ''g1'' \<lparr>playerID = ''alice'', moveGameID = ''g1'', move = \<lparr>numObjects = Num 1\<rparr>\<rparr>)
    = \<lparr>games = [''g1'' \<mapsto>
          \<lparr>gameID = ''g1'', gameType = ''Nim'', players = [''alice'', ''bob''],
            state = \<lparr>status = IN_PROGRESS, player1 = Some ''alice'', player2 = Some ''bob'',
                      moves = [], remainingObjects = Num 5, winners = None\<rparr>\<rparr>],
        available = False\<rparr> \<and>
   fst (snd (submitMove
      \<lparr>games = [''g1'' \<mapsto>
          \<lparr>gameID = ''g1'', gameType = ''Nim'', players = [''alice'', ''bob''],
            state = \<lparr>status = IN_PROGRESS, player1 = Some ''alice'', player2 = Some ''bob'',
                      moves = [], remainingObjects = Num 5, winners = None\<rparr>\<rparr>],
        available = True\<rparr>
      ''g1'' \<lparr>playerID = ''alice'', moveGameID = ''g1'', move = \<lparr>numObjects = Num 1\<rparr>\<rparr>))
    = Committed"
proof -
  let ?game = "\<lparr>gameID = ''g1'', gameType = ''Nim'', players = [''alice'', ''bob''],
            state = \<lparr>status = IN_PROGRESS, player1 = Some ''alice'', player2 = Some ''bob'',
                      moves = [], remainingObjects = Num 5, winners = None\<rparr>\<rparr>"
  let ?up = "\<lparr>games = [''g1'' \<mapsto> ?game], available = True\<rparr>"
  let ?down = "\<lparr>games = [''g1'' \<mapsto> ?game], available = False\<rparr>"
  let ?a = "\<lparr>playerID = ''alice'', moveGameID = ''g1'', move = \<lparr>numObjects = Num 1\<rparr>\<rparr>"
  let ?b = "\<lparr>playerID = ''bob'', moveGameID = ''g1'', move = \<lparr>numObjects = Num 1\<rparr>\<rparr>"
  have found: "get ?up ''g1'' = Some ?game"
    by (simp add: get_def)
  have turn: "js_index (players ?game) (length (moves (state ?game)) mod 2) \<noteq> Some (playerID ?b)"
    by (simp add: js_index_def)
  have wrong_turn: "fst (submitMove ?up ''g1'' ?b) = ?up"
    using submitMove_atomic [of ?up "''g1''" ?b, THEN conjunct2, THEN conjunct2] found turn
    by blast
  have failed: "fst (snd (submitMove ?down ''g1'' ?a)) \<noteq> Committed"
    by (simp add: submitMove_cases get_def validate_def js_index_def)
  have unavailable: "fst (submitMove ?down ''g1'' ?a) = ?down"
    using submitMove_atomic [of ?down "''g1''" ?a, THEN conjunct2, THEN conjunct1] failed
    by blast
  have committed: "fst (snd (submitMove ?up ''g1'' ?a)) = Committed"
    by (simp add: submitMove_cases get_def validate_def js_index_def)
  show ?thesis
    using wrong_turn unavailable committed by blast
qed

section \<open>The chat service: adding a participant\<close>

lemma findOneAndUpdate_None:
  "findOneAndUpdate filt upd cs = None \<longleftrightarrow> (\<forall>c \<in> set cs. \<not> filt c)"
  by (induction cs) auto

lemma findOneAndUpdate_first:
  "findOneAndUpdate filt upd cs = Some (u, cs') \<Longrightarrow>
     \<exists>pre c post. cs = pre @ c # post \<and> (\<forall>d \<in> set pre. \<not> filt d) \<and> filt c \<and>
        u = upd c \<and> cs' = pre @ upd c # post"
proof (induction cs arbitrary: cs')
  case Nil
  then show ?case by simp
next
  case (Cons a cs)
  show ?case
  proof (cases "filt a")
    case True
    with Cons.prems have "u = upd a" "cs' = upd a # cs" by auto
    with True have "a # cs = [] @ a # cs \<and> (\<forall>d \<in> set []. \<not> filt d) \<and> filt a \<and>
        u = upd a \<and> cs' = [] @ upd a # cs" by simp
    then show ?thesis by blast
  next
    case False
    with Cons.prems obtain rest where rest: "findOneAndUpdate filt upd cs = Some (u, rest)"
      and cs': "cs' = a # rest" by auto
    from Cons.IH [OF rest] obtain pre c post where
      "cs = pre @ c # post" "\<forall>d \<in> set pre. \<not> filt d" "filt c" "u = upd c"
      "rest = pre @ upd c # post" by blast
    with False cs' have "a # cs = (a # pre) @ c # post \<and> (\<forall>d \<in> set (a # pre). \<not> filt d) \<and>
        filt c \<and> u = upd c \<and> cs' = (a # pre) @ upd c # post" by simp
    then show ?thesis by blast
  qed
qed

lemma findOneAndUpdate_by_key:
  "distinct (map key cs) \<Longrightarrow> find (\<lambda>d. key d = k) cs = Some c \<Longrightarrow> filt c \<Longrightarrow>
   (\<And>d. filt d \<Longrightarrow> key d = k) \<Longrightarrow>
     findOneAndUpdate filt upd cs
       = Some (upd c, map (\<lambda>d. if key d = k then upd d else d) cs)"
proof (induction cs)
  case Nil
  then show ?case by simp
next
  case (Cons a cs)
  show ?case
  proof (cases "key a = k")
    case True
    with Cons.prems have a: "a = c" by simp
    have "\<forall>d \<in> set cs. key d \<noteq> k"
      using Cons.prems(1) True by (auto simp: image_iff)
    then have "map (\<lambda>d. if key d = k then upd d else d) cs = cs"
      by (induction cs) auto
    with a True Cons.prems(3) show ?thesis by simp
  next
    case False
    then have "\<not> filt a" using Cons.prems(4) by blast
    moreover have "find (\<lambda>d. key d = k) cs = Some c"
      using Cons.prems(2) False by simp
    moreover have "distinct (map key cs)" using Cons.prems(1) by simp
    ultimately show ?thesis
      using Cons.IH Cons.prems(3,4) False by simp
  qed
qed

lemma find_key_None: "find (\<lambda>d. key d = k) cs = None \<Longrightarrow> \<forall>d \<in> set cs. key d \<noteq> k"
  by (simp add: find_None_iff)

lemma find_key_unique:
  "distinct (map key cs) \<Longrightarrow> find (\<lambda>d. key d = k) cs = Some c \<Longrightarrow> d \<in> set cs \<Longrightarrow>
     key d = k \<Longrightarrow> d = c"
proof (induction cs)
  case Nil
  then show ?case by simp
next
  case (Cons a cs)
  then show ?case
    by (cases "key a = k") (auto simp: image_iff)
qed

lemma addParticipantToChat_no_match:
  "\<forall>c \<in> set (chats db). \<not> (chat_id c = Some chatId \<and> userId \<notin> set (participants c)) \<Longrightarrow>
     \<exists>e. addParticipantToChat fault db chatId userId = (Inl e, db)"
proof -
  assume "\<forall>c \<in> set (chats db). \<not> (chat_id c = Some chatId \<and> userId \<notin> set (participants c))"
  then have "findOneAndUpdate (\<lambda>c. chat_id c = Some chatId \<and> userId \<notin> set (participants c))
      (\<lambda>c. c\<lparr>participants := participants c @ [userId]\<rparr>) (chats db) = None"
    by (simp add: findOneAndUpdate_None)
  then show ?thesis
    by (simp add: addParticipantToChat_def split: option.splits)
qed

lemma addParticipantToChat_no_user:
  "find (\<lambda>u. user_id u = userId) (users db) = None \<Longrightarrow>
     \<exists>e. addParticipantToChat fault db chatId userId = (Inl e, db)"
  by (simp add: addParticipantToChat_def split: option.splits)

lemma addParticipantToChat_error_unchanged:
  "addParticipantToChat fault db chatId userId = (Inl e, db') \<Longrightarrow> db' = db"
  by (auto simp: addParticipantToChat_def split: option.splits)

lemma addParticipantToChat_once:
  "addParticipantToChat fault db chatId userId = (Inr u, db') \<Longrightarrow>
     count_list (participants u) userId = 1"
proof -
  assume "addParticipantToChat fault db chatId userId = (Inr u, db')"
  then obtain cs' where
    "findOneAndUpdate (\<lambda>c. chat_id c = Some chatId \<and> userId \<notin> set (participants c))
      (\<lambda>c. c\<lparr>participants := participants c @ [userId]\<rparr>) (chats db) = Some (u, cs')"
    by (auto simp: addParticipantToChat_def split: option.splits)
  from findOneAndUpdate_first [OF this] obtain c where
    "userId \<notin> set (participants c)" "u = c\<lparr>participants := participants c @ [userId]\<rparr>"
    by blast
  then show ?thesis by (simp add: count_list_0_iff)
qed

text \<open>
  Claim C8. Chats have distinct identifiers. If the user does not exist, or no chat has the
  given identifier, or the chat with that identifier already lists the user, the call
  returns an error and the database is as before. Otherwise, when neither database call
  rejects, the result is that chat with the user appended at the end of its participants,
  where the user then occurs once, and only that chat has changed. Whatever the inputs, an
  error leaves the database as it was and a returned chat lists the user exactly once.
\<close>

theorem addParticipantToChat_no_duplicate:
  assumes ids: "distinct (map chat_id (chats db))"
  shows
  "(find (\<lambda>u. user_id u = userId) (users db) = None \<or>
    find (\<lambda>c. chat_id c = Some chatId) (chats db) = None \<or>
    (\<exists>c. find (\<lambda>c. chat_id c = Some chatId) (chats db) = Some c \<and>
         userId \<in> set (participants c)) \<longrightarrow>
      (\<exists>e. addParticipantToChat fault db chatId userId = (Inl e, db))) \<and>
   (\<forall>c. fault UserFindById = None \<and> fault ChatFindOneAndUpdate = None \<and>
        find (\<lambda>u. user_id u = userId) (users db) \<noteq> None \<and>
        find (\<lambda>c. chat_id c = Some chatId) (chats db) = Some c \<and>
        userId \<notin> set (participants c) \<longrightarrow>
      addParticipantToChat fault db chatId userId
        = (Inr (c\<lparr>participants := participants c @ [userId]\<rparr>),
           db\<lparr>chats := map (\<lambda>d. if chat_id d = Some chatId
                                 then d\<lparr>participants := participants d @ [userId]\<rparr> else d)
                           (chats db)\<rparr>) \<and>
      count_list (participants c @ [userId]) userId = 1) \<and>
   (\<forall>e db'. addParticipantToChat fault db chatId userId = (Inl e, db') \<longrightarrow> db' = db) \<and>
   (\<forall>u db'. addParticipantToChat fault db chatId userId = (Inr u, db') \<longrightarrow>
      count_list (participants u) userId = 1)"
proof -
  let ?filt = "\<lambda>c. chat_id c = Some chatId \<and> userId \<notin> set (participants c)"
  let ?upd = "\<lambda>c. c\<lparr>participants := participants c @ [userId]\<rparr>"
  have refused: "\<exists>e. addParticipantToChat fault db chatId userId = (Inl e, db)"
    if "find (\<lambda>u. user_id u = userId) (users db) = None \<or>
        find (\<lambda>c. chat_id c = Some chatId) (chats db) = None \<or>
        (\<exists>c. find (\<lambda>c. chat_id c = Some chatId) (chats db) = Some c \<and>
             userId \<in> set (participants c))"
  proof -
    from that consider (nouser) "find (\<lambda>u. user_id u = userId) (users db) = None"
      | (nochat) "find (\<lambda>c. chat_id c = Some chatId) (chats db) = None"
      | (member) c where "find (\<lambda>c. chat_id c = Some chatId) (chats db) = Some c"
          "userId \<in> set (participants c)"
      by auto
    then show ?thesis
    proof cases
      case nouser
      then show ?thesis by (rule addParticipantToChat_no_user)
    next
      case nochat
      then have "\<forall>d \<in> set (chats db). chat_id d \<noteq> Some chatId"
        by (rule find_key_None)
      then show ?thesis by (intro addParticipantToChat_no_match) blast
    next
      case member
      have "\<forall>d \<in> set (chats db). \<not> ?filt d"
        using find_key_unique [OF ids member(1)] member(2) by blast
      then show ?thesis by (rule addParticipantToChat_no_match)
    qed
  qed
  have added: "addParticipantToChat fault db chatId userId
        = (Inr (?upd c), db\<lparr>chats := map (\<lambda>d. if chat_id d = Some chatId then ?upd d else d)
                                        (chats db)\<rparr>) \<and>
      count_list (participants c @ [userId]) userId = 1"
    if h: "fault UserFindById = None \<and> fault ChatFindOneAndUpdate = None \<and>
        find (\<lambda>u. user_id u = userId) (users db) \<noteq> None \<and>
        find (\<lambda>c. chat_id c = Some chatId) (chats db) = Some c \<and>
        userId \<notin> set (participants c)" for c
  proof -
    have found: "find (\<lambda>c. chat_id c = Some chatId) (chats db) = Some c"
      using h by simp
    then have "chat_id c = Some chatId"
      by (auto simp: find_Some_iff)
    then have "?filt c" using h by simp
    then have "findOneAndUpdate ?filt ?upd (chats db)
      = Some (?upd c, map (\<lambda>d. if chat_id d = Some chatId then ?upd d else d) (chats db))"
      by (intro findOneAndUpdate_by_key [OF ids found]) simp_all
    then show ?thesis
      using h by (auto simp: addParticipantToChat_def count_list_0_iff split: option.splits)
  qed
  have unchanged: "db' = db"
    if "addParticipantToChat fault db chatId userId = (Inl e, db')" for e db'
    using that by (rule addParticipantToChat_error_unchanged)
  have once: "count_list (participants u) userId = 1"
    if "addParticipantToChat fault db chatId userId = (Inr u, db')" for u db'
    using that by (rule addParticipantToChat_once)
  show ?thesis
    using refused added unchanged once by blast
qed

theorem addParticipantToChat_no_duplicate_witness:
  "addParticipantToChat (\<lambda>_. None)
      \<lparr>users = [\<lparr>user_id = ''u1'', username = ''alice''\<rparr>,
                \<lparr>user_id = ''u2'', username = ''bob''\<rparr>],
        chats = [\<lparr>chat_id = Some ''c1'', participants = [''u1''], messages = []\<rparr>],
        storedMessages = []\<rparr>
      ''c1'' ''u2''
    = (Inr \<lparr>chat_id = Some ''c1'', participants = [''u1'', ''u2''], messages = []\<rparr>,
       \<lparr>users = [\<lparr>user_id = ''u1'', username = ''alice''\<rparr>,
                 \<lparr>user_id = ''u2'', username = ''bob''\<rparr>],
         chats = [\<lparr>chat_id = Some ''c1'', participants = [''u1'', ''u2''], messages = []\<rparr>],
         storedMessages = []\<rparr>) \<and>
   addParticipantToChat (\<lambda>_. None)
      \<lparr>users = [\<lparr>user_id = ''u1'', username = ''alice''\<rparr>,
                \<lparr>user_id = ''u2'', username = ''bob''\<rparr>],
        chats = [\<lparr>chat_id = Some ''c1'', participants = [''u1''], messages = []\<rparr>],
        storedMessages = []\<rparr>
      ''c1'' ''u1''
    = (Inl ''Error adding participant to chat: Chat not found or user already a participant.'',
       \<lparr>users = [\<lparr>user_id = ''u1'', username = ''alice''\<rparr>,
                 \<lparr>user_id = ''u2'', username = ''bob''\<rparr>],
         chats = [\<lparr>chat_id = Some ''c1'', participants = [''u1''], messages = []\<rparr>],
         storedMessages = []\<rparr>)"
proof -
  let ?c = "\<lparr>chat_id = Some ''c1'', participants = [''u1''], messages = []\<rparr>"
  let ?db = "\<lparr>users = [\<lparr>user_id = ''u1'', username = ''alice''\<rparr>,
                      \<lparr>user_id = ''u2'', username = ''bob''\<rparr>],
              chats = [?c], storedMessages = []\<rparr>"
  have ids: "distinct (map chat_id (chats ?db))" by simp
  have chat: "find (\<lambda>c. chat_id c = Some ''c1'') (chats ?db) = Some ?c" by simp
  have user2: "find (\<lambda>u. user_id u = ''u2'') (users ?db) \<noteq> None" by simp
  have "addParticipantToChat (\<lambda>_. None) ?db ''c1'' ''u2''
      = (Inr (?c\<lparr>participants := participants ?c @ [''u2'']\<rparr>),
         ?db\<lparr>chats := map (\<lambda>d. if chat_id d = Some ''c1''
                                  then d\<lparr>participants := participants d @ [''u2'']\<rparr> else d)
                            (chats ?db)\<rparr>)"
    using addParticipantToChat_no_duplicate [OF ids, of "''u2''" "''c1''" "\<lambda>_. None",
        THEN conjunct2, THEN conjunct1] chat user2
    by simp
  then have added: "addParticipantToChat (\<lambda>_. None) ?db ''c1'' ''u2''
      = (Inr \<lparr>chat_id = Some ''c1'', participants = [''u1'', ''u2''], messages = []\<rparr>,
         \<lparr>users = [\<lparr>user_id = ''u1'', username = ''alice''\<rparr>,
                   \<lparr>user_id = ''u2'', username = ''bob''\<rparr>],
           chats = [\<lparr>chat_id = Some ''c1'', participants = [''u1'', ''u2''], messages = []\<rparr>],
           storedMessages = []\<rparr>)"
    by simp
  have "\<exists>c. find (\<lambda>c. chat_id c = Some ''c1'') (chats ?db) = Some c \<and> ''u1'' \<in> set (participants c)"
    by simp
  then have "\<exists>e. addParticipantToChat (\<lambda>_. None) ?db ''c1'' ''u1'' = (Inl e, ?db)"
    using addParticipantToChat_no_duplicate [OF ids, of "''u1''" "''c1''" "\<lambda>_. None",
        THEN conjunct1]
    by blast
  then obtain e where e: "addParticipantToChat (\<lambda>_. None) ?db ''c1'' ''u1'' = (Inl e, ?db)"
    by blast
  have "fst (addParticipantToChat (\<lambda>_. None) ?db ''c1'' ''u1'')
      = Inl ''Error adding participant to chat: Chat not found or user already a participant.''"
    by (simp add: addParticipantToChat_def)
  with e have refused: "addParticipantToChat (\<lambda>_. None) ?db ''c1'' ''u1''
      = (Inl ''Error adding participant to chat: Chat not found or user already a participant.'',
         ?db)"
    by simp
  show ?thesis
    using added refused by blast
qed

section \<open>The chat service: chats by participants\<close>

text \<open>
  Claim C9. The result is always a list of chats, never an error value: every chat in it
  is a stored chat whose participants include all the given usernames; when the lookup
  rejects the result is the empty list; and when it does not reject and some username is
  given, the result is all the stored chats that include every given username, in order.
\<close>

theorem getChatsByParticipants_never_error:
  "(\<forall>c \<in> set (getChatsByParticipants fault db p).
      c \<in> set (chats db) \<and> set p \<subseteq> set (participants c)) \<and>
   (fault ChatFind \<noteq> None \<longrightarrow> getChatsByParticipants fault db p = []) \<and>
   (fault ChatFind = None \<and> p \<noteq> [] \<longrightarrow>
      getChatsByParticipants fault db p
        = filter (\<lambda>c. set p \<subseteq> set (participants c)) (chats db))"
  by (auto simp: getChatsByParticipants_def split: option.splits)

theorem getChatsByParticipants_never_error_witness:
  "getChatsByParticipants (\<lambda>_. None)
      \<lparr>users = [],
        chats = [\<lparr>chat_id = Some ''c1'', participants = [''user1'', ''user2''], messages = []\<rparr>,
                 \<lparr>chat_id = Some ''c2'', participants = [''user2'', ''user3''], messages = []\<rparr>],
        storedMessages = []\<rparr>
      [''user1'']
    = [\<lparr>chat_id = Some ''c1'', participants = [''user1'', ''user2''], messages = []\<rparr>] \<and>
   getChatsByParticipants (\<lambda>_. Some ''connection lost'')
      \<lparr>users = [],
        chats = [\<lparr>chat_id = Some ''c1'', participants = [''user1'', ''user2''], messages = []\<rparr>,
                 \<lparr>chat_id = Some ''c2'', participants = [''user2'', ''user3''], messages = []\<rparr>],
        storedMessages = []\<rparr>
      [''user1'']
    = []"
  using getChatsByParticipants_never_error [of "\<lambda>_. None"
      "\<lparr>users = [],
        chats = [\<lparr>chat_id = Some ''c1'', participants = [''user1'', ''user2''], messages = []\<rparr>,
                 \<lparr>chat_id = Some ''c2'', participants = [''user2'', ''user3''], messages = []\<rparr>],
        storedMessages = []\<rparr>" "[''user1'']"]
    getChatsByParticipants_never_error [of "\<lambda>_. Some ''connection lost''"
      "\<lparr>users = [],
        chats = [\<lparr>chat_id = Some ''c1'', participants = [''user1'', ''user2''], messages = []\<rparr>,
                 \<lparr>chat_id = Some ''c2'', participants = [''user2'', ''user3''], messages = []\<rparr>],
        storedMessages = []\<rparr>" "[''user1'']"]
  by simp

section \<open>The chat service: creating a message\<close>

text \<open>
  Claim C10. If the lookup of the sender rejects, or no user has the sender's username, or
  saving rejects, the result is exactly the error "Error creating message: User not found"
  and the database is as before; no other error text is ever returned. A message that is
  returned has type "direct" whatever the input's type was, keeps the input's text and
  sender, and is the one message added to the stored messages. When none of the three
  failures occurs a message is returned.
\<close>

theorem createMessage_one_error:
  "(fault UserFindOne \<noteq> None \<or>
    find (\<lambda>u. username u = msgFrom messageData) (users db) = None \<or>
    fault MessageSave \<noteq> None \<longrightarrow>
      createMessage fault newId db messageData
        = (Inl ''Error creating message: User not found'', db)) \<and>
   (\<forall>e db'. createMessage fault newId db messageData = (Inl e, db') \<longrightarrow>
      e = ''Error creating message: User not found'' \<and> db' = db) \<and>
   (\<forall>saved db'. createMessage fault newId db messageData = (Inr saved, db') \<longrightarrow>
      msgType saved = ''direct'' \<and> msg saved = msg messageData \<and>
      msgFrom saved = msgFrom messageData \<and>
      db' = db\<lparr>storedMessages := storedMessages db @ [saved]\<rparr>) \<and>
   (fault UserFindOne = None \<and>
    find (\<lambda>u. username u = msgFrom messageData) (users db) \<noteq> None \<and>
    fault MessageSave = None \<longrightarrow>
      (\<exists>saved db'. createMessage fault newId db messageData = (Inr saved, db')))"
  by (auto simp: createMessage_def Let_def split: option.splits)

theorem createMessage_one_error_witness:
  "createMessage (\<lambda>_. None) ''m1''
      \<lparr>users = [\<lparr>user_id = ''u1'', username = ''user1''\<rparr>], chats = [], storedMessages = []\<rparr>
      \<lparr>message_id = None, msg = ''Hello!'', msgFrom = ''ghost'', msgDateTime = 0,
        msgType = ''global''\<rparr>
    = (Inl ''Error creating message: User not found'',
       \<lparr>users = [\<lparr>user_id = ''u1'', username = ''user1''\<rparr>], chats = [], storedMessages = []\<rparr>) \<and>
   createMessage (\<lambda>op. if op = MessageSave then Some ''validation failed'' else None) ''m1''
      \<lparr>users = [\<lparr>user_id = ''u1'', username = ''user1''\<rparr>], chats = [], storedMessages = []\<rparr>
      \<lparr>message_id = None, msg = ''Hello!'', msgFrom = ''user1'', msgDateTime = 0,
        msgType = ''global''\<rparr>
    = (Inl ''Error creating message: User not found'',
       \<lparr>users = [\<lparr>user_id = ''u1'', username = ''user1''\<rparr>], chats = [], storedMessages = []\<rparr>) \<and>
   map_sum id msgType (fst (createMessage (\<lambda>_. None) ''m1''
      \<lparr>users = [\<lparr>user_id = ''u1'', username = ''user1''\<rparr>], chats = [], storedMessages = []\<rparr>
      \<lparr>message_id = None, msg = ''Hello!'', msgFrom = ''user1'', msgDateTime = 0,
        msgType = ''global''\<rparr>))
    = Inr ''direct''"
proof -
  let ?db = "\<lparr>users = [\<lparr>user_id = ''u1'', username = ''user1''\<rparr>], chats = [],
              storedMessages = []\<rparr>"
  let ?ghost = "\<lparr>message_id = None, msg = ''Hello!'', msgFrom = ''ghost'', msgDateTime = 0,
        msgType = ''global''\<rparr>"
  let ?hello = "\<lparr>message_id = None, msg = ''Hello!'', msgFrom = ''user1'', msgDateTime = 0,
        msgType = ''global''\<rparr>"
  let ?nosave = "\<lambda>op. if op = MessageSave then Some ''validation failed'' else None"
  have "find (\<lambda>u. username u = msgFrom ?ghost) (users ?db) = None" by simp
  then have nouser: "createMessage (\<lambda>_. None) ''m1'' ?db ?ghost
      = (Inl ''Error creating message: User not found'', ?db)"
    using createMessage_one_error [of "\<lambda>_. None" ?ghost ?db "''m1''", THEN conjunct1]
    by blast
  have "?nosave MessageSave \<noteq> None" by simp
  then have nosave: "createMessage ?nosave ''m1'' ?db ?hello
      = (Inl ''Error creating message: User not found'', ?db)"
    using createMessage_one_error [of ?nosave ?hello ?db "''m1''", THEN conjunct1]
    by blast
  have "find (\<lambda>u. username u = msgFrom ?hello) (users ?db) \<noteq> None" by simp
  then obtain saved db' where
    saved: "createMessage (\<lambda>_. None) ''m1'' ?db ?hello = (Inr saved, db')"
    using createMessage_one_error [of "\<lambda>_. None" ?hello ?db "''m1''",
        THEN conjunct2, THEN conjunct2, THEN conjunct2]
    by blast
  then have "msgType saved = ''direct''"
    using createMessage_one_error [of "\<lambda>_. None" ?hello ?db "''m1''",
        THEN conjunct2, THEN conjunct2, THEN conjunct1]
    by blast
  with saved have direct:
    "map_sum id msgType (fst (createMessage (\<lambda>_. None) ''m1'' ?db ?hello)) = Inr ''direct''"
    by simp
  show ?thesis
    using nouser nosave direct by blast
qed

end
